theory Spec2Isabelle
  imports Complex_Main
begin

section \<open>Python values\<close>

text \<open>
  A Python \<open>str\<close> is modelled as the list of its characters (\<open>string\<close>): \<open>length\<close> is
  Python's \<open>len\<close>, \<open>take n\<close> is the slice \<open>[:n]\<close> and \<open>@\<close> is \<open>+\<close>. Isabelle's \<open>char\<close>
  covers the code points below 256.

  The values that \<open>json.loads\<close> returns and that the adapters build by hand (dicts of
  strings, lists and numbers) are the type \<open>json\<close>. A dict keeps its insertion order:
  it is an association list with distinct keys.
\<close>

datatype json =
    JNull
  | JBool bool
  | JInt int
  | JFloat rat
  | JString string
  | JArray "json list"
  | JObject "(string \<times> json) list"

text \<open>The only exception that leaves the orchestration layer in this model.\<close>

datatype error = TypeError

text \<open>\<open>bool(x)\<close> of an optional string: \<open>None\<close> and \<open>""\<close> are false.\<close>

definition truthy :: "string option \<Rightarrow> bool" where
  "truthy k = (case k of None \<Rightarrow> False | Some s \<Rightarrow> s \<noteq> [])"

text \<open>\<open>d[k] = v\<close> on an insertion-ordered dict.\<close>

fun dict_set :: "('k \<times> 'v) list \<Rightarrow> 'k \<Rightarrow> 'v \<Rightarrow> ('k \<times> 'v) list" where
  "dict_set [] k v = [(k, v)]"
| "dict_set ((k', v') # d) k v = (if k' = k then (k, v) # d else (k', v') # dict_set d k v)"

section \<open>The provider classes (ai\_providers/base.py and the subclasses)\<close>

text \<open>
  \<open>AIProvider\<close> derives from \<open>ABC\<close> and marks four methods \<open>@abstractmethod\<close>. Python
  computes for every subclass the set \<open>__abstractmethods__\<close> of abstract methods that
  the class body does not override, and \<open>object.__new__\<close> raises \<open>TypeError\<close> when that
  set is not empty. \<open>overrides\<close> lists, for each class of the repository, which of the
  four methods its body defines:
  \<^item> \<open>OpenAIProvider\<close> (openai\_provider.py) and \<open>GeminiProvider\<close> (gemini\_provider.py)
    define all four;
  \<^item> \<open>OpenRouterProvider\<close> (openrouter\_provider.py) defines the three \<open>generate_*\<close>
    methods and no \<open>is_available\<close>;
  \<^item> \<open>MockProvider\<close> (the class inside \<open>AIManager._create_mock_provider\<close>) defines the
    three \<open>generate_*\<close> methods and no \<open>is_available\<close>.
\<close>

datatype provider_class = OpenAIProvider | GeminiProvider | OpenRouterProvider | MockProvider

datatype abstract_method =
    Generate_file_analysis
  | Generate_repository_summary
  | Generate_architecture_diagram
  | Is_available

definition AIProvider_abstract :: "abstract_method list" where
  "AIProvider_abstract =
     [Generate_file_analysis, Generate_repository_summary,
      Generate_architecture_diagram, Is_available]"

fun overrides :: "provider_class \<Rightarrow> abstract_method list" where
  "overrides OpenAIProvider =
     [Is_available, Generate_file_analysis, Generate_repository_summary,
      Generate_architecture_diagram]"
| "overrides GeminiProvider =
     [Is_available, Generate_file_analysis, Generate_repository_summary,
      Generate_architecture_diagram]"
| "overrides OpenRouterProvider =
     [Generate_file_analysis, Generate_repository_summary, Generate_architecture_diagram]"
| "overrides MockProvider =
     [Generate_file_analysis, Generate_repository_summary, Generate_architecture_diagram]"

definition abstractmethods :: "provider_class \<Rightarrow> abstract_method list" where
  "abstractmethods c = filter (\<lambda>m. m \<notin> set (overrides c)) AIProvider_abstract"

text \<open>
  The instance state set by \<open>AIProvider.__init__\<close>: \<open>name\<close>, \<open>api_key\<close> and
  \<open>enabled = bool(api_key)\<close>. \<open>client\<close> says whether the SDK handle of the subclass
  (\<open>self.client\<close> of OpenAI, \<open>self.model\<close> of Gemini) is set; both start as \<open>None\<close>.
\<close>

record provider =
  cls :: provider_class
  p_name :: string
  api_key :: "string option"
  enabled :: bool
  client :: bool

definition AIProvider_init :: "provider_class \<Rightarrow> string \<Rightarrow> string option \<Rightarrow> provider" where
  "AIProvider_init c n k =
     \<lparr>cls = c, p_name = n, api_key = k, enabled = truthy k, client = False\<rparr>"

text \<open>
  What the constructors find in the process: whether \<open>import openai\<close> succeeds, and
  whether \<open>import google.generativeai\<close>, \<open>configure\<close> and \<open>GenerativeModel\<close> succeed
  for a key. A failure is caught by the constructor, which then clears \<open>enabled\<close>.
\<close>

record libs =
  openai_importable :: bool
  genai_usable :: "string option \<Rightarrow> bool"

text \<open>
  Calling a class: \<open>object.__new__\<close> first (the abstract-method check), then the
  class's \<open>__init__\<close>.
\<close>

definition OpenAIProvider_new :: "libs \<Rightarrow> string option \<Rightarrow> error + provider" where
  "OpenAIProvider_new l k =
     (if abstractmethods OpenAIProvider \<noteq> [] then Inl TypeError
      else let self = AIProvider_init OpenAIProvider ''OpenAI'' k in
        Inr (if truthy k
             then (if openai_importable l then self\<lparr>client := True\<rparr>
                   else self\<lparr>enabled := False\<rparr>)
             else self))"

definition GeminiProvider_new :: "libs \<Rightarrow> string option \<Rightarrow> error + provider" where
  "GeminiProvider_new l k =
     (if abstractmethods GeminiProvider \<noteq> [] then Inl TypeError
      else let self = AIProvider_init GeminiProvider ''Gemini'' k in
        Inr (if truthy k
             then (if genai_usable l k then self\<lparr>client := True\<rparr>
                   else self\<lparr>enabled := False\<rparr>)
             else self))"

definition OpenRouterProvider_new :: "string option \<Rightarrow> error + provider" where
  "OpenRouterProvider_new k =
     (if abstractmethods OpenRouterProvider \<noteq> [] then Inl TypeError
      else Inr (AIProvider_init OpenRouterProvider ''OpenRouter'' k))"

definition MockProvider_new :: "error + provider" where
  "MockProvider_new =
     (if abstractmethods MockProvider \<noteq> [] then Inl TypeError
      else Inr (AIProvider_init MockProvider ''Mock'' (Some ''mock_key'')))"

text \<open>
  \<open>is_available\<close>, by method resolution: OpenAI and Gemini use their own
  (\<open>bool(self.enabled and self.client)\<close>, \<open>bool(self.enabled and self.model)\<close>); the two
  other classes would inherit the body of \<open>AIProvider.is_available\<close>, \<open>self.enabled\<close>.
\<close>

definition is_available :: "provider \<Rightarrow> bool" where
  "is_available p =
     (case cls p of
        OpenAIProvider \<Rightarrow> enabled p \<and> client p
      | GeminiProvider \<Rightarrow> enabled p \<and> client p
      | OpenRouterProvider \<Rightarrow> enabled p
      | MockProvider \<Rightarrow> enabled p)"

record usage_info =
  u_name :: string
  u_enabled :: bool
  has_api_key :: bool

definition get_usage_info :: "provider \<Rightarrow> usage_info" where
  "get_usage_info p =
     \<lparr>u_name = p_name p, u_enabled = enabled p, has_api_key = truthy (api_key p)\<rparr>"

section \<open>The manager (ai\_manager.py)\<close>

text \<open>The three credentials of \<open>Config\<close>: each is \<open>os.getenv(...)\<close>, a string or \<open>None\<close>.\<close>

record config =
  OPENAI_API_KEY :: "string option"
  GEMINI_API_KEY :: "string option"
  OPENROUTER_API_KEY :: "string option"

record manager =
  mconfig :: config
  providers :: "(string \<times> provider) list"

text \<open>
  One step of \<open>load_providers\<close>: \<open>if key: self.providers[name] = Class(key)\<close>. An
  exception of the constructor call ends \<open>load_providers\<close>.
\<close>

definition register ::
  "string \<Rightarrow> string option \<Rightarrow> error + provider \<Rightarrow> (string \<times> provider) list
     \<Rightarrow> error + (string \<times> provider) list" where
  "register n k made ps =
     (if truthy k
      then (case made of Inl e \<Rightarrow> Inl e | Inr p \<Rightarrow> Inr (dict_set ps n p))
      else Inr ps)"

definition load_providers :: "libs \<Rightarrow> config \<Rightarrow> error + (string \<times> provider) list" where
  "load_providers l c =
     (case register ''openai'' (OPENAI_API_KEY c)
             (OpenAIProvider_new l (OPENAI_API_KEY c)) [] of
        Inl e \<Rightarrow> Inl e
      | Inr ps1 \<Rightarrow>
          (case register ''gemini'' (GEMINI_API_KEY c)
                  (GeminiProvider_new l (GEMINI_API_KEY c)) ps1 of
             Inl e \<Rightarrow> Inl e
           | Inr ps2 \<Rightarrow>
               register ''openrouter'' (OPENROUTER_API_KEY c)
                 (OpenRouterProvider_new (OPENROUTER_API_KEY c)) ps2))"

definition AIManager_init :: "libs \<Rightarrow> config \<Rightarrow> error + manager" where
  "AIManager_init l c =
     (case load_providers l c of
        Inl e \<Rightarrow> Inl e
      | Inr ps \<Rightarrow> Inr \<lparr>mconfig = c, providers = ps\<rparr>)"

definition get_available_providers :: "manager \<Rightarrow> string list" where
  "get_available_providers m = map fst (filter (\<lambda>(n, p). is_available p) (providers m))"

definition create_mock_provider :: "error + provider" where
  "create_mock_provider = MockProvider_new"

text \<open>
  \<open>get_provider\<close>: the named adapter when the name is truthy, registered and available;
  else the first available adapter in the dict's order; else the mock provider, which
  has to be instantiated.
\<close>

definition get_provider :: "manager \<Rightarrow> string option \<Rightarrow> error + provider" where
  "get_provider m provider_name =
     (case (case provider_name of
              None \<Rightarrow> None
            | Some n \<Rightarrow>
                if n = [] then None
                else (case map_of (providers m) n of
                        Some p \<Rightarrow> if is_available p then Some p else None
                      | None \<Rightarrow> None)) of
        Some p \<Rightarrow> Inr p
      | None \<Rightarrow>
          (case find (\<lambda>(n, p). is_available p) (providers m) of
             Some (n, p) \<Rightarrow> Inr p
           | None \<Rightarrow> create_mock_provider))"

definition get_provider_status :: "manager \<Rightarrow> (string \<times> usage_info) list" where
  "get_provider_status m = map (\<lambda>(n, p). (n, get_usage_info p)) (providers m)"

section \<open>Inputs, requests and the outside world\<close>

text \<open>
  The two dicts the repository walker hands over, with the keys the adapters read.
  \<open>file_info['name']\<close> and \<open>file_info['language']\<close> are read by subscript;
  \<open>file_info.get('content', '')\<close> has a default, so \<open>content\<close> is optional. In
  \<open>repo_data\<close>, \<open>name\<close> is read by subscript and the three others by \<open>.get\<close> with the
  defaults \<open>{}\<close>, \<open>0\<close> and \<open>0\<close>. \<open>size_mb\<close> is a float.
\<close>

record file_info =
  f_name :: string
  f_language :: string
  f_content :: "string option"

record repo_data =
  r_name :: string
  languages :: "(string \<times> int) list option"
  file_count :: "int option"
  size_mb :: "rat option"

text \<open>
  What an adapter sends: the keyword arguments of \<open>ChatCompletion.create\<close> (OpenAI),
  the \<open>requests.post\<close> with its url, headers and json body (OpenRouter), the one
  message string of \<open>generate_content\<close> (Gemini).
\<close>

record chat_payload =
  model :: string
  messages :: "(string \<times> string) list"
  temperature :: rat
  max_tokens :: nat

datatype request =
    ChatCompletion_create chat_payload
  | Requests_post string "(string \<times> string) list" chat_payload
  | Generate_content string

text \<open>
  What an adapter reads out of a response: \<open>response["choices"][0]["message"]["content"]\<close>
  (OpenAI, OpenRouter) or \<open>getattr(response, "text", str(response))\<close> (Gemini). It is a
  text, or Python's \<open>None\<close> when the message carries no content.
\<close>

datatype reply = Null | Text string

text \<open>
  The outside world of a call. \<open>backend req\<close> is the reply the adapter extracts from the
  response to \<open>req\<close>, or \<open>None\<close> when anything on the way raised (the network,
  \<open>raise_for_status\<close> on a status that is not 2xx, a response of another shape): all of
  it is inside the adapter's outer \<open>try\<close>. \<open>json_loads s\<close> is \<open>json.loads(s)\<close>, \<open>None\<close>
  when it raises. The theorems below hold for every \<open>backend\<close> and every \<open>json_loads\<close>.
\<close>

record rt =
  backend :: "request \<Rightarrow> reply option"
  json_loads :: "string \<Rightarrow> json option"

text \<open>
  The two library formatters that build prompt text from a dict:
  \<open>json.dumps(repo_info, indent=2)\<close> and \<open>str\<close> of a dict inside an f-string.
\<close>

record fmt =
  json_dumps :: "json \<Rightarrow> string"
  py_str :: "json \<Rightarrow> string"

text \<open>\<open>str(n)\<close> of an int, and \<open>', '.join(xs)\<close>.\<close>

fun str_nat :: "nat \<Rightarrow> string" where
  "str_nat n =
     (if n < 10 then [''0123456789'' ! n]
      else str_nat (n div 10) @ [''0123456789'' ! (n mod 10)])"

definition str_int :: "int \<Rightarrow> string" where
  "str_int i = (if i < 0 then CHR ''-'' # str_nat (nat (- i)) else str_nat (nat i))"

fun join :: "string \<Rightarrow> string list \<Rightarrow> string" where
  "join sep [] = []"
| "join sep [x] = x"
| "join sep (x # y # ys) = x @ sep @ join sep (y # ys)"

section \<open>Prompts and request payloads\<close>

text \<open>
  The content excerpt: \<open>content = file_info.get('content', '')\<close>, then
  \<open>if len(content) > 4000: content = content[:4000] + "... [truncated]"\<close>. The same three
  lines stand in the three adapters.
\<close>

definition excerpt :: "file_info \<Rightarrow> string" where
  "excerpt fi =
     (let content = (case f_content fi of None \<Rightarrow> [] | Some c \<Rightarrow> c) in
      if length content > 4000 then take 4000 content @ ''... [truncated]'' else content)"

definition get_file_analysis_prompt :: string where
  "get_file_analysis_prompt =
     ''You are an expert code analyst. Analyze the provided code file and generate a comprehensive tutorial-style explanation in JSON format.''"

definition get_repository_summary_prompt :: string where
  "get_repository_summary_prompt =
     ''You are a technical writer. Generate a comprehensive repository summary and tutorial structure in JSON format.''"

definition diagram_prompt :: string where
  "diagram_prompt =
     ''Generate a Mermaid diagram showing the high-level architecture of this repository.''"

text \<open>
  \<open>f"Analyze this {file_info['language']} file: {file_info['name']}\n\n{content}"\<close>
\<close>

definition file_user_message :: "file_info \<Rightarrow> string" where
  "file_user_message fi =
     ''Analyze this '' @ f_language fi @ '' file: '' @ f_name fi @ ''\<newline>\<newline>'' @ excerpt fi"

text \<open>The dict \<open>repo_info\<close> of the summary prompt.\<close>

definition repo_info :: "repo_data \<Rightarrow> json" where
  "repo_info rd =
     JObject
       [(''name'', JString (r_name rd)),
        (''languages'',
           JObject (map (\<lambda>(k, n). (k, JInt n))
                      (case languages rd of None \<Rightarrow> [] | Some ls \<Rightarrow> ls))),
        (''file_count'', JInt (case file_count rd of None \<Rightarrow> 0 | Some n \<Rightarrow> n)),
        (''size_mb'', (case size_mb rd of None \<Rightarrow> JInt 0 | Some x \<Rightarrow> JFloat x))]"

definition summary_user_message :: "fmt \<Rightarrow> repo_data \<Rightarrow> string" where
  "summary_user_message f rd = ''Generate summary for: '' @ json_dumps f (repo_info rd)"

definition diagram_user_message :: "fmt \<Rightarrow> repo_data \<Rightarrow> string" where
  "diagram_user_message f rd =
     ''Repository: '' @ r_name rd @ '', Languages: '' @
     py_str f (JObject (map (\<lambda>(k, n). (k, JInt n))
                          (case languages rd of None \<Rightarrow> [] | Some ls \<Rightarrow> ls)))"

definition openai_request :: "string \<Rightarrow> string \<Rightarrow> nat \<Rightarrow> request" where
  "openai_request prompt user limit =
     ChatCompletion_create
       \<lparr>model = ''gpt-4o'',
        messages = [(''system'', prompt), (''user'', user)],
        temperature = 1 / 10,
        max_tokens = limit\<rparr>"

text \<open>
  OpenRouter: \<open>f"Bearer {self.api_key}"\<close> prints \<open>None\<close> for a missing key.
\<close>

definition openrouter_headers :: "provider \<Rightarrow> (string \<times> string) list" where
  "openrouter_headers p =
     [(''Authorization'',
         ''Bearer '' @ (case api_key p of None \<Rightarrow> ''None'' | Some k \<Rightarrow> k)),
      (''Content-Type'', ''application/json''),
      (''HTTP-Referer'', ''https://codecrackr.app''),
      (''X-Title'', ''CodeCrackr'')]"

definition openrouter_request :: "provider \<Rightarrow> string \<Rightarrow> string \<Rightarrow> nat \<Rightarrow> request" where
  "openrouter_request p prompt user limit =
     Requests_post ''https://openrouter.ai/api/v1/chat/completions'' (openrouter_headers p)
       \<lparr>model = ''openai/gpt-4o-mini'',
        messages = [(''system'', prompt), (''user'', user)],
        temperature = 1 / 10,
        max_tokens = limit\<rparr>"

definition gemini_request :: "string \<Rightarrow> string \<Rightarrow> request" where
  "gemini_request prompt user = Generate_content (prompt @ ''\<newline>'' @ user)"

section \<open>Mock results\<close>

text \<open>
  Each class has its own \<open>_mock_file_analysis\<close>, \<open>_mock_repository_summary\<close> and
  \<open>_mock_architecture_diagram\<close>. The four copies differ in the label only (\<open>OpenAI\<close>,
  \<open>Gemini\<close>, \<open>OpenRouter\<close>, \<open>Mock\<close>), in the overview of the summary, and in the
  \<open>line_number\<close> entry, which the manager's \<open>MockProvider\<close> leaves out.
\<close>

fun label :: "provider_class \<Rightarrow> string" where
  "label OpenAIProvider = ''OpenAI''"
| "label GeminiProvider = ''Gemini''"
| "label OpenRouterProvider = ''OpenRouter''"
| "label MockProvider = ''Mock''"

definition mock_file_analysis :: "provider_class \<Rightarrow> file_info \<Rightarrow> json" where
  "mock_file_analysis c fi =
     JObject
       [(''file_name'', JString (f_name fi)),
        (''description'', JString (label c @ '' analysis for '' @ f_language fi @ '' file'')),
        (''key_components'',
           JArray
             [JObject
                ([(''name'', JString ''main''),
                  (''type'', JString ''function''),
                  (''description'', JString ''Main functionality'')] @
                 (if c = MockProvider then [] else [(''line_number'', JInt 1)]))]),
        (''purpose'', JString ''Core functionality''),
        (''dependencies'', JArray [JString ''standard library'']),
        (''complexity'', JString ''medium'')]"

definition mock_repository_summary :: "provider_class \<Rightarrow> repo_data \<Rightarrow> json" where
  "mock_repository_summary c rd =
     JObject
       [(''repository_name'', JString (r_name rd)),
        (''overview'',
           JString (if c = MockProvider then ''Mock repository analysis''
                    else label c @ ''-powered repository analysis'')),
        (''architecture'', JObject [(''description'', JString ''Modular architecture'')]),
        (''key_features'',
           JArray [JObject [(''name'', JString ''Core''),
                            (''description'', JString ''Main features'')]]),
        (''tutorial_sections'',
           JArray [JObject [(''title'', JString ''Getting Started''),
                            (''description'', JString ''Introduction''),
                            (''difficulty'', JString ''beginner'')]]),
        (''learning_path'',
           JArray [JObject [(''step'', JInt 1),
                            (''title'', JString ''Overview''),
                            (''description'', JString ''Understand the project'')]]),
        (''technical_stack'',
           JArray (map (\<lambda>(k, n). JString k)
                     (case languages rd of None \<Rightarrow> [] | Some ls \<Rightarrow> ls))),
        (''complexity_level'', JString ''medium'')]"

definition mock_architecture_diagram :: "provider_class \<Rightarrow> repo_data \<Rightarrow> string" where
  "mock_architecture_diagram c rd =
     ''graph TD\<newline>    A['' @ r_name rd @ ''] --> B['' @ label c @ '' Analysis]\<newline>'' @
     ''    B --> C[Files: '' @ str_int (case file_count rd of None \<Rightarrow> 0 | Some n \<Rightarrow> n) @
     '']\<newline>    B --> D[Languages: '' @
     join '', '' (map fst (case languages rd of None \<Rightarrow> [] | Some ls \<Rightarrow> ls)) @ '']''"

section \<open>Normalising a reply\<close>

text \<open>
  \<open>re.search(r"\{.*\}", result, re.DOTALL)\<close> followed by \<open>.group()\<close>. With \<open>DOTALL\<close>
  the dot matches every character, and the star is greedy: the leftmost match starts at
  the first \<open>{\<close> of the reply and runs to the last \<open>}\<close> after it. When no \<open>}\<close> follows the
  first \<open>{\<close>, none follows a later \<open>{\<close> either, and there is no match.
\<close>

definition re_search_braces :: "string \<Rightarrow> string option" where
  "re_search_braces s =
     (case dropWhile (\<lambda>c. c \<noteq> CHR ''{'') s of
        [] \<Rightarrow> None
      | b # t \<Rightarrow>
          (case dropWhile (\<lambda>c. c \<noteq> CHR ''}'') (rev t) of
             [] \<Rightarrow> None
           | e # u \<Rightarrow> Some (b # rev (e # u))))"

text \<open>
  The dict both fallback branches of \<open>generate_file_analysis\<close> return; its
  \<open>description\<close> is the reply as it came, \<open>None\<close> included.
\<close>

definition wrapped_text :: "file_info \<Rightarrow> reply \<Rightarrow> json" where
  "wrapped_text fi result =
     JObject
       [(''file_name'', JString (f_name fi)),
        (''description'', (case result of Null \<Rightarrow> JNull | Text s \<Rightarrow> JString s)),
        (''key_components'', JArray []),
        (''purpose'', JString ''File analysis''),
        (''dependencies'', JArray []),
        (''complexity'', JString ''medium'')]"

text \<open>
  The inner \<open>try\<close> of \<open>generate_file_analysis\<close>, the same in the three adapters: a match
  that parses is returned as parsed; no match, or an exception of \<open>json.loads\<close>, gives
  the wrapped text. On \<open>None\<close> the call of \<open>re.search\<close> raises \<open>TypeError\<close>, which the
  inner \<open>except\<close> catches: the wrapped text again.
\<close>

definition normalize_file_analysis ::
  "(string \<Rightarrow> json option) \<Rightarrow> file_info \<Rightarrow> reply \<Rightarrow> json" where
  "normalize_file_analysis loads fi result =
     (case result of
        Null \<Rightarrow> wrapped_text fi result
      | Text s \<Rightarrow>
          (case re_search_braces s of
             Some m \<Rightarrow> (case loads m of Some v \<Rightarrow> v | None \<Rightarrow> wrapped_text fi result)
           | None \<Rightarrow> wrapped_text fi result))"

text \<open>
  The inner \<open>try\<close> of \<open>generate_repository_summary\<close>: here both fallback branches
  return the class's \<open>_mock_repository_summary(repo_data)\<close>.
\<close>

definition normalize_repository_summary ::
  "(string \<Rightarrow> json option) \<Rightarrow> provider_class \<Rightarrow> repo_data \<Rightarrow> reply \<Rightarrow> json" where
  "normalize_repository_summary loads c rd result =
     (case result of
        Null \<Rightarrow> mock_repository_summary c rd
      | Text s \<Rightarrow>
          (case re_search_braces s of
             Some m \<Rightarrow> (case loads m of Some v \<Rightarrow> v | None \<Rightarrow> mock_repository_summary c rd)
           | None \<Rightarrow> mock_repository_summary c rd))"

section \<open>The adapters' methods\<close>

text \<open>
  Every method returns its result together with the requests it sent, in order. A
  diagram is the reply as it came (a text or \<open>None\<close>), or the text of the mock diagram.
  \<open>file_analyses\<close>, the second argument of \<open>generate_repository_summary\<close>, is a list of
  analysis dicts.
\<close>

definition OpenAIProvider_generate_file_analysis ::
  "rt \<Rightarrow> provider \<Rightarrow> file_info \<Rightarrow> json \<times> request list" where
  "OpenAIProvider_generate_file_analysis w self fi =
     (if \<not> is_available self then (mock_file_analysis OpenAIProvider fi, [])
      else let req = openai_request get_file_analysis_prompt (file_user_message fi) 1000 in
        (case backend w req of
           None \<Rightarrow> (mock_file_analysis OpenAIProvider fi, [req])
         | Some result \<Rightarrow> (normalize_file_analysis (json_loads w) fi result, [req])))"

definition OpenAIProvider_generate_repository_summary ::
  "rt \<Rightarrow> fmt \<Rightarrow> provider \<Rightarrow> repo_data \<Rightarrow> json list \<Rightarrow> json \<times> request list" where
  "OpenAIProvider_generate_repository_summary w f self rd file_analyses =
     (if \<not> is_available self then (mock_repository_summary OpenAIProvider rd, [])
      else let req = openai_request get_repository_summary_prompt
                       (summary_user_message f rd) 2000 in
        (case backend w req of
           None \<Rightarrow> (mock_repository_summary OpenAIProvider rd, [req])
         | Some result \<Rightarrow>
             (normalize_repository_summary (json_loads w) OpenAIProvider rd result, [req])))"

definition OpenAIProvider_generate_architecture_diagram ::
  "rt \<Rightarrow> fmt \<Rightarrow> provider \<Rightarrow> repo_data \<Rightarrow> reply \<times> request list" where
  "OpenAIProvider_generate_architecture_diagram w f self rd =
     (if \<not> is_available self then (Text (mock_architecture_diagram OpenAIProvider rd), [])
      else let req = openai_request diagram_prompt (diagram_user_message f rd) 500 in
        (case backend w req of
           None \<Rightarrow> (Text (mock_architecture_diagram OpenAIProvider rd), [req])
         | Some result \<Rightarrow> (result, [req])))"

definition GeminiProvider_generate_file_analysis ::
  "rt \<Rightarrow> provider \<Rightarrow> file_info \<Rightarrow> json \<times> request list" where
  "GeminiProvider_generate_file_analysis w self fi =
     (if \<not> is_available self then (mock_file_analysis GeminiProvider fi, [])
      else let req = gemini_request get_file_analysis_prompt (file_user_message fi) in
        (case backend w req of
           None \<Rightarrow> (mock_file_analysis GeminiProvider fi, [req])
         | Some result \<Rightarrow> (normalize_file_analysis (json_loads w) fi result, [req])))"

definition GeminiProvider_generate_repository_summary ::
  "rt \<Rightarrow> fmt \<Rightarrow> provider \<Rightarrow> repo_data \<Rightarrow> json list \<Rightarrow> json \<times> request list" where
  "GeminiProvider_generate_repository_summary w f self rd file_analyses =
     (if \<not> is_available self then (mock_repository_summary GeminiProvider rd, [])
      else let req = gemini_request get_repository_summary_prompt
                       (summary_user_message f rd) in
        (case backend w req of
           None \<Rightarrow> (mock_repository_summary GeminiProvider rd, [req])
         | Some result \<Rightarrow>
             (normalize_repository_summary (json_loads w) GeminiProvider rd result, [req])))"

definition GeminiProvider_generate_architecture_diagram ::
  "rt \<Rightarrow> fmt \<Rightarrow> provider \<Rightarrow> repo_data \<Rightarrow> reply \<times> request list" where
  "GeminiProvider_generate_architecture_diagram w f self rd =
     (if \<not> is_available self then (Text (mock_architecture_diagram GeminiProvider rd), [])
      else let req = gemini_request diagram_prompt (diagram_user_message f rd) in
        (case backend w req of
           None \<Rightarrow> (Text (mock_architecture_diagram GeminiProvider rd), [req])
         | Some result \<Rightarrow> (result, [req])))"

definition OpenRouterProvider_generate_file_analysis ::
  "rt \<Rightarrow> provider \<Rightarrow> file_info \<Rightarrow> json \<times> request list" where
  "OpenRouterProvider_generate_file_analysis w self fi =
     (if \<not> is_available self then (mock_file_analysis OpenRouterProvider fi, [])
      else let req = openrouter_request self get_file_analysis_prompt
                       (file_user_message fi) 1000 in
        (case backend w req of
           None \<Rightarrow> (mock_file_analysis OpenRouterProvider fi, [req])
         | Some result \<Rightarrow> (normalize_file_analysis (json_loads w) fi result, [req])))"

definition OpenRouterProvider_generate_repository_summary ::
  "rt \<Rightarrow> fmt \<Rightarrow> provider \<Rightarrow> repo_data \<Rightarrow> json list \<Rightarrow> json \<times> request list" where
  "OpenRouterProvider_generate_repository_summary w f self rd file_analyses =
     (if \<not> is_available self then (mock_repository_summary OpenRouterProvider rd, [])
      else let req = openrouter_request self get_repository_summary_prompt
                       (summary_user_message f rd) 2000 in
        (case backend w req of
           None \<Rightarrow> (mock_repository_summary OpenRouterProvider rd, [req])
         | Some result \<Rightarrow>
             (normalize_repository_summary (json_loads w) OpenRouterProvider rd result,
              [req])))"

definition OpenRouterProvider_generate_architecture_diagram ::
  "rt \<Rightarrow> fmt \<Rightarrow> provider \<Rightarrow> repo_data \<Rightarrow> reply \<times> request list" where
  "OpenRouterProvider_generate_architecture_diagram w f self rd =
     (if \<not> is_available self then (Text (mock_architecture_diagram OpenRouterProvider rd), [])
      else let req = openrouter_request self diagram_prompt
                       (diagram_user_message f rd) 500 in
        (case backend w req of
           None \<Rightarrow> (Text (mock_architecture_diagram OpenRouterProvider rd), [req])
         | Some result \<Rightarrow> (result, [req])))"

definition MockProvider_generate_file_analysis :: "file_info \<Rightarrow> json \<times> request list" where
  "MockProvider_generate_file_analysis fi = (mock_file_analysis MockProvider fi, [])"

definition MockProvider_generate_repository_summary ::
  "repo_data \<Rightarrow> json list \<Rightarrow> json \<times> request list" where
  "MockProvider_generate_repository_summary rd file_analyses =
     (mock_repository_summary MockProvider rd, [])"

definition MockProvider_generate_architecture_diagram ::
  "repo_data \<Rightarrow> reply \<times> request list" where
  "MockProvider_generate_architecture_diagram rd =
     (Text (mock_architecture_diagram MockProvider rd), [])"

text \<open>A method call on a provider object runs the method of the object's class.\<close>

definition provider_generate_file_analysis ::
  "rt \<Rightarrow> provider \<Rightarrow> file_info \<Rightarrow> json \<times> request list" where
  "provider_generate_file_analysis w p fi =
     (case cls p of
        OpenAIProvider \<Rightarrow> OpenAIProvider_generate_file_analysis w p fi
      | GeminiProvider \<Rightarrow> GeminiProvider_generate_file_analysis w p fi
      | OpenRouterProvider \<Rightarrow> OpenRouterProvider_generate_file_analysis w p fi
      | MockProvider \<Rightarrow> MockProvider_generate_file_analysis fi)"

definition provider_generate_repository_summary ::
  "rt \<Rightarrow> fmt \<Rightarrow> provider \<Rightarrow> repo_data \<Rightarrow> json list \<Rightarrow> json \<times> request list" where
  "provider_generate_repository_summary w f p rd file_analyses =
     (case cls p of
        OpenAIProvider \<Rightarrow> OpenAIProvider_generate_repository_summary w f p rd file_analyses
      | GeminiProvider \<Rightarrow> GeminiProvider_generate_repository_summary w f p rd file_analyses
      | OpenRouterProvider \<Rightarrow>
          OpenRouterProvider_generate_repository_summary w f p rd file_analyses
      | MockProvider \<Rightarrow> MockProvider_generate_repository_summary rd file_analyses)"

definition provider_generate_architecture_diagram ::
  "rt \<Rightarrow> fmt \<Rightarrow> provider \<Rightarrow> repo_data \<Rightarrow> reply \<times> request list" where
  "provider_generate_architecture_diagram w f p rd =
     (case cls p of
        OpenAIProvider \<Rightarrow> OpenAIProvider_generate_architecture_diagram w f p rd
      | GeminiProvider \<Rightarrow> GeminiProvider_generate_architecture_diagram w f p rd
      | OpenRouterProvider \<Rightarrow> OpenRouterProvider_generate_architecture_diagram w f p rd
      | MockProvider \<Rightarrow> MockProvider_generate_architecture_diagram rd)"

section \<open>The orchestration entry points of the manager\<close>

text \<open>
  Each entry point resolves a provider and delegates. An exception of \<open>get_provider\<close>
  is not caught. The test \<open>if provider:\<close> always succeeds (a provider object defines
  neither \<open>__bool__\<close> nor \<open>__len__\<close>), so the line after it is never reached.
\<close>

definition AIManager_generate_file_analysis ::
  "rt \<Rightarrow> manager \<Rightarrow> file_info \<Rightarrow> string option \<Rightarrow> error + json \<times> request list" where
  "AIManager_generate_file_analysis w m fi provider_name =
     (case get_provider m provider_name of
        Inl e \<Rightarrow> Inl e
      | Inr provider \<Rightarrow> Inr (provider_generate_file_analysis w provider fi))"

definition AIManager_generate_repository_summary ::
  "rt \<Rightarrow> fmt \<Rightarrow> manager \<Rightarrow> repo_data \<Rightarrow> json list \<Rightarrow> string option
     \<Rightarrow> error + json \<times> request list" where
  "AIManager_generate_repository_summary w f m rd file_analyses provider_name =
     (case get_provider m provider_name of
        Inl e \<Rightarrow> Inl e
      | Inr provider \<Rightarrow>
          Inr (provider_generate_repository_summary w f provider rd file_analyses))"

definition AIManager_generate_architecture_diagram ::
  "rt \<Rightarrow> fmt \<Rightarrow> manager \<Rightarrow> repo_data \<Rightarrow> string option \<Rightarrow> error + reply \<times> request list" where
  "AIManager_generate_architecture_diagram w f m rd provider_name =
     (case get_provider m provider_name of
        Inl e \<Rightarrow> Inl e
      | Inr provider \<Rightarrow> Inr (provider_generate_architecture_diagram w f provider rd))"

section \<open>A reader for a fragment of JSON\<close>

text \<open>
  \<open>json.loads\<close> belongs to Python's library. For runs on concrete replies the theory
  has a reader of its own, \<open>json_loads_fragment\<close>, which follows the library's decoder
  on a fragment of JSON: objects, arrays, strings with the two-character escapes,
  integers, \<open>true\<close>, \<open>false\<close>, \<open>null\<close>, and white space where the decoder allows it.
  Outside the fragment (a fraction or an exponent, a four-digit hexadecimal escape, \<open>NaN\<close>, \<open>Infinity\<close>) it
  returns \<open>None\<close> although the library may return a value; the runs below apply it
  only to texts that have none of these. As in the library, a repeated key keeps its first position
  and its last value, a control character inside a string is an error, and so is
  anything but white space after the value.
\<close>

definition is_ws :: "char \<Rightarrow> bool" where
  "is_ws c = (c = CHR '' '' \<or> c = CHR 0x09 \<or> c = CHR 0x0A \<or> c = CHR 0x0D)"

definition skip_ws :: "string \<Rightarrow> string" where
  "skip_ws s = dropWhile is_ws s"

definition is_digit :: "char \<Rightarrow> bool" where
  "is_digit c = (c \<in> set ''0123456789'')"

definition unescape :: "char \<Rightarrow> char option" where
  "unescape e =
     (if e = CHR 0x22 then Some (CHR 0x22)
      else if e = CHR 0x5C then Some (CHR 0x5C)
      else if e = CHR ''/'' then Some (CHR ''/'')
      else if e = CHR ''b'' then Some (CHR 0x08)
      else if e = CHR ''f'' then Some (CHR 0x0C)
      else if e = CHR ''n'' then Some (CHR 0x0A)
      else if e = CHR ''r'' then Some (CHR 0x0D)
      else if e = CHR ''t'' then Some (CHR 0x09)
      else None)"

text \<open>The characters of a string after its opening quote, and the rest after the closing one.\<close>

fun scan_string :: "string \<Rightarrow> (string \<times> string) option" where
  "scan_string [] = None"
| "scan_string [c] = (if c = CHR 0x22 then Some ([], []) else None)"
| "scan_string (c # d # cs) =
     (if c = CHR 0x22 then Some ([], d # cs)
      else if c = CHR 0x5C then
        (case unescape d of
           None \<Rightarrow> None
         | Some x \<Rightarrow> map_option (\<lambda>(s, r). (x # s, r)) (scan_string cs))
      else if (of_char c :: nat) < 32 then None
      else map_option (\<lambda>(s, r). (c # s, r)) (scan_string (d # cs)))"

definition digits_value :: "string \<Rightarrow> nat" where
  "digits_value ds = foldl (\<lambda>a c. 10 * a + (of_char c - 48)) 0 ds"

text \<open>
  An integer: an optional minus sign, then \<open>0\<close> or a digit string that does not start
  with \<open>0\<close>. A following \<open>.\<close>, \<open>e\<close> or \<open>E\<close> is a float or an error: \<open>None\<close> in both cases.
\<close>

definition scan_int :: "string \<Rightarrow> (int \<times> string) option" where
  "scan_int s =
     (let neg = (s \<noteq> [] \<and> hd s = CHR ''-'');
          s1 = (if neg then tl s else s);
          ds = (if s1 \<noteq> [] \<and> hd s1 = CHR ''0'' then ''0'' else takeWhile is_digit s1);
          r = drop (length ds) s1
      in if ds = [] then None
         else if r \<noteq> [] \<and> hd r \<in> set ''.eE'' then None
         else Some (if neg then - int (digits_value ds) else int (digits_value ds), r))"

text \<open>
  \<open>parse_value\<close> reads one value at the head of the text, as the decoder's
  \<open>scan_once\<close>; \<open>parse_items\<close> reads the rest of an array from its next value on and
  \<open>parse_pairs\<close> the rest of an object from its next key on. The first argument bounds
  the number of nested calls; the length of the text is always enough, since each call
  consumes a character.
\<close>

fun parse_value :: "nat \<Rightarrow> string \<Rightarrow> (json \<times> string) option"
  and parse_items :: "nat \<Rightarrow> json list \<Rightarrow> string \<Rightarrow> (json \<times> string) option"
  and parse_pairs :: "nat \<Rightarrow> (string \<times> json) list \<Rightarrow> string \<Rightarrow> (json \<times> string) option"
  where
  "parse_value 0 s = None"
| "parse_value (Suc n) [] = None"
| "parse_value (Suc n) (c # cs) =
     (if c = CHR 0x22 then map_option (\<lambda>(t, r). (JString t, r)) (scan_string cs)
      else if c = CHR ''{'' then
        (case skip_ws cs of
           [] \<Rightarrow> None
         | d # r \<Rightarrow> if d = CHR ''}'' then Some (JObject [], r) else parse_pairs n [] (d # r))
      else if c = CHR ''['' then
        (case skip_ws cs of
           [] \<Rightarrow> None
         | d # r \<Rightarrow> if d = CHR '']'' then Some (JArray [], r) else parse_items n [] (d # r))
      else if take 4 (c # cs) = ''null'' then Some (JNull, drop 4 (c # cs))
      else if take 4 (c # cs) = ''true'' then Some (JBool True, drop 4 (c # cs))
      else if take 5 (c # cs) = ''false'' then Some (JBool False, drop 5 (c # cs))
      else map_option (\<lambda>(i, r). (JInt i, r)) (scan_int (c # cs)))"
| "parse_items 0 acc s = None"
| "parse_items (Suc n) acc s =
     (case parse_value n s of
        None \<Rightarrow> None
      | Some (v, r) \<Rightarrow>
          (case skip_ws r of
             [] \<Rightarrow> None
           | d # r' \<Rightarrow>
               if d = CHR '']'' then Some (JArray (acc @ [v]), r')
               else if d = CHR '','' then parse_items n (acc @ [v]) (skip_ws r')
               else None))"
| "parse_pairs 0 acc s = None"
| "parse_pairs (Suc n) acc s =
     (case s of
        [] \<Rightarrow> None
      | q # s1 \<Rightarrow>
          if q \<noteq> CHR 0x22 then None
          else
            (case scan_string s1 of
               None \<Rightarrow> None
             | Some (k, r) \<Rightarrow>
                 (case skip_ws r of
                    [] \<Rightarrow> None
                  | colon # r1 \<Rightarrow>
                      if colon \<noteq> CHR '':'' then None
                      else
                        (case parse_value n (skip_ws r1) of
                           None \<Rightarrow> None
                         | Some (v, r2) \<Rightarrow>
                             (case skip_ws r2 of
                                [] \<Rightarrow> None
                              | d # r3 \<Rightarrow>
                                  if d = CHR ''}'' then Some (JObject (dict_set acc k v), r3)
                                  else if d = CHR '','' then
                                    parse_pairs n (dict_set acc k v) (skip_ws r3)
                                  else None)))))"

definition json_loads_fragment :: "string \<Rightarrow> json option" where
  "json_loads_fragment s =
     (case parse_value (Suc (length s)) (skip_ws s) of
        None \<Rightarrow> None
      | Some (v, r) \<Rightarrow> if skip_ws r = [] then Some v else None)"

section \<open>Vocabulary of the claims\<close>

text \<open>
  The credential that \<open>Config\<close> holds for the backend of a class; the mock has none.
\<close>

fun credential :: "config \<Rightarrow> provider_class \<Rightarrow> string option" where
  "credential c OpenAIProvider = OPENAI_API_KEY c"
| "credential c GeminiProvider = GEMINI_API_KEY c"
| "credential c OpenRouterProvider = OPENROUTER_API_KEY c"
| "credential c MockProvider = None"

text \<open>\<open>r.get(k)\<close> on a result: the value under a key of a dict, if there is one.\<close>

definition field :: "string \<Rightarrow> json \<Rightarrow> json option" where
  "field k r = (case r of JObject d \<Rightarrow> map_of d k | _ \<Rightarrow> None)"

text \<open>
  A fully populated analysis result: a dict that has each of the six fields of an
  AnalysisResult, none of them \<open>None\<close>.
\<close>

definition analysis_fields :: "string list" where
  "analysis_fields =
     [''file_name'', ''description'', ''key_components'', ''purpose'', ''dependencies'',
      ''complexity'']"

definition fully_populated :: "json \<Rightarrow> bool" where
  "fully_populated r =
     list_all (\<lambda>k. case field k r of None \<Rightarrow> False | Some v \<Rightarrow> v \<noteq> JNull) analysis_fields"

text \<open>The configuration without credentials, and the file of the spec's scenario.\<close>

definition no_credentials :: config where
  "no_credentials =
     \<lparr>OPENAI_API_KEY = None, GEMINI_API_KEY = None, OPENROUTER_API_KEY = None\<rparr>"

definition app_py :: file_info where
  "app_py = \<lparr>f_name = ''app.py'', f_language = ''python'', f_content = Some ''print(1)''\<rparr>"

text \<open>
  A configuration with the OpenAI credential only, the OpenAI adapter as its constructor
  leaves it (\<open>ok\<close>: whether \<open>import openai\<close> succeeded), and the manager that holds it.
\<close>

definition openai_only :: config where
  "openai_only =
     \<lparr>OPENAI_API_KEY = Some ''sk-1'', GEMINI_API_KEY = None, OPENROUTER_API_KEY = None\<rparr>"

definition openai_adapter :: "bool \<Rightarrow> provider" where
  "openai_adapter ok =
     \<lparr>cls = OpenAIProvider, p_name = ''OpenAI'', api_key = Some ''sk-1'',
      enabled = ok, client = ok\<rparr>"

definition openai_manager :: "bool \<Rightarrow> manager" where
  "openai_manager ok = \<lparr>mconfig = openai_only, providers = [(''openai'', openai_adapter ok)]\<rparr>"

definition libs_present :: "bool \<Rightarrow> libs" where
  "libs_present ok = \<lparr>openai_importable = ok, genai_usable = (\<lambda>k. ok)\<rparr>"

text \<open>
  Data for concrete runs: a repository descriptor, a file whose content has 4001
  characters, a backend that answers every request with the same reply, and a backend
  whose every call fails.
\<close>

definition demo_repo :: repo_data where
  "demo_repo =
     \<lparr>r_name = ''demo'', languages = Some [(''python'', 3)], file_count = Some 3,
      size_mb = Some (5 / 4)\<rparr>"

definition replying :: "reply \<Rightarrow> rt" where
  "replying r = \<lparr>backend = (\<lambda>req. Some r), json_loads = json_loads_fragment\<rparr>"

definition failing :: rt where
  "failing = \<lparr>backend = (\<lambda>req. None), json_loads = json_loads_fragment\<rparr>"

definition big_py :: file_info where
  "big_py =
     \<lparr>f_name = ''big.py'', f_language = ''python'',
      f_content = Some (replicate 4001 (CHR ''x''))\<rparr>"

section \<open>Instantiating the classes\<close>

lemma abstractmethods_simps:
  "abstractmethods OpenAIProvider = []"
  "abstractmethods GeminiProvider = []"
  "abstractmethods OpenRouterProvider = [Is_available]"
  "abstractmethods MockProvider = [Is_available]"
  by (simp_all add: abstractmethods_def AIProvider_abstract_def)

lemma OpenRouterProvider_new_raises: "OpenRouterProvider_new k = Inl TypeError"
  by (simp add: OpenRouterProvider_new_def abstractmethods_simps)

lemma MockProvider_new_raises: "MockProvider_new = Inl TypeError"
  by (simp add: MockProvider_new_def abstractmethods_simps)

lemma OpenAIProvider_new_eq:
  "OpenAIProvider_new l k =
     Inr \<lparr>cls = OpenAIProvider, p_name = ''OpenAI'', api_key = k,
          enabled = (truthy k \<and> openai_importable l),
          client = (truthy k \<and> openai_importable l)\<rparr>"
  by (simp add: OpenAIProvider_new_def abstractmethods_simps AIProvider_init_def Let_def)

lemma GeminiProvider_new_eq:
  "GeminiProvider_new l k =
     Inr \<lparr>cls = GeminiProvider, p_name = ''Gemini'', api_key = k,
          enabled = (truthy k \<and> genai_usable l k),
          client = (truthy k \<and> genai_usable l k)\<rparr>"
  by (simp add: GeminiProvider_new_def abstractmethods_simps AIProvider_init_def Let_def)

lemma load_providers_openrouter:
  "truthy (OPENROUTER_API_KEY c) \<Longrightarrow> load_providers l c = Inl TypeError"
  by (simp add: load_providers_def register_def OpenRouterProvider_new_raises
        OpenAIProvider_new_eq GeminiProvider_new_eq)

lemma load_providers_eq:
  "\<not> truthy (OPENROUTER_API_KEY c) \<Longrightarrow>
   load_providers l c =
     Inr ((if truthy (OPENAI_API_KEY c)
           then [(''openai'',
                  \<lparr>cls = OpenAIProvider, p_name = ''OpenAI'', api_key = OPENAI_API_KEY c,
                   enabled = openai_importable l, client = openai_importable l\<rparr>)]
           else []) @
          (if truthy (GEMINI_API_KEY c)
           then [(''gemini'',
                  \<lparr>cls = GeminiProvider, p_name = ''Gemini'', api_key = GEMINI_API_KEY c,
                   enabled = genai_usable l (GEMINI_API_KEY c),
                   client = genai_usable l (GEMINI_API_KEY c)\<rparr>)]
           else []))"
  by (simp add: load_providers_def register_def OpenAIProvider_new_eq GeminiProvider_new_eq)

lemma find_None_unavailable:
  "find (\<lambda>(n, p). is_available p) ps = None \<longleftrightarrow> (\<forall>(n, p) \<in> set ps. \<not> is_available p)"
  by (auto simp: find_None_iff)

lemma find_available_Some:
  "find (\<lambda>(n, p). is_available p) ps = Some (k, q) \<Longrightarrow> (k, q) \<in> set ps \<and> is_available q"
  by (induction ps) (auto split: if_splits)

lemma get_provider_raises_iff:
  "get_provider m n = Inl TypeError \<longleftrightarrow> (\<forall>(k, p) \<in> set (providers m). \<not> is_available p)"
proof
  assume raised: "get_provider m n = Inl TypeError"
  then have "find (\<lambda>(n, p). is_available p) (providers m) = None"
    by (auto simp: get_provider_def split: option.splits if_splits)
  then show "\<forall>(k, p) \<in> set (providers m). \<not> is_available p"
    by (simp add: find_None_unavailable)
next
  assume none: "\<forall>(k, p) \<in> set (providers m). \<not> is_available p"
  then have scan: "find (\<lambda>(n, p). is_available p) (providers m) = None"
    by (simp add: find_None_unavailable)
  have named: "map_of (providers m) x = Some p \<Longrightarrow> \<not> is_available p" for x p
    using none by (auto dest: map_of_SomeD)
  show "get_provider m n = Inl TypeError"
    using scan named
    by (auto simp: get_provider_def create_mock_provider_def MockProvider_new_raises
        split: option.splits)
qed

lemma get_provider_returns_registered:
  "get_provider m n = Inr p \<Longrightarrow> (\<exists>k. (k, p) \<in> set (providers m)) \<and> is_available p"
  by (auto simp: get_provider_def create_mock_provider_def MockProvider_new_raises
      split: option.splits if_splits dest: map_of_SomeD find_available_Some)

text \<open>
  The two branches of \<open>get_provider\<close> that return: a truthy name of an available
  adapter gives that adapter; otherwise the first available adapter in the dict's order
  is returned.
\<close>

lemma get_provider_named:
  assumes "n \<noteq> []" and "map_of (providers m) n = Some p" and "is_available p"
  shows "get_provider m (Some n) = Inr p"
  using assms by (simp add: get_provider_def)

lemma find_first_available:
  assumes "\<forall>(k, q) \<in> set before. \<not> is_available q" and "is_available p"
  shows "find (\<lambda>(k, q). is_available q) (before @ (n, p) # after) = Some (n, p)"
  using assms by (induction before) auto

lemma get_provider_first_available:
  assumes "providers m = before @ (k, p) # after"
    and "\<forall>(k', q) \<in> set before. \<not> is_available q" and "is_available p"
    and "name = None \<or> name = Some [] \<or>
         (\<exists>n. name = Some n \<and> (map_of (providers m) n = None \<or>
            (\<exists>q. map_of (providers m) n = Some q \<and> \<not> is_available q)))"
  shows "get_provider m name = Inr p"
proof -
  have scan: "find (\<lambda>(k, q). is_available q) (providers m) = Some (k, p)"
    unfolding assms(1) by (rule find_first_available [OF assms(2,3)])
  from assms(4) show ?thesis
  proof (elim disjE exE conjE)
    assume "name = None"
    then show ?thesis using scan by (simp add: get_provider_def)
  next
    assume "name = Some []"
    then show ?thesis using scan by (simp add: get_provider_def)
  next
    fix n assume "name = Some n" "map_of (providers m) n = None"
    then show ?thesis using scan by (simp add: get_provider_def)
  next
    fix n q assume "name = Some n" "map_of (providers m) n = Some q" "\<not> is_available q"
    then show ?thesis using scan by (simp add: get_provider_def)
  qed
qed

section \<open>Claims about instantiation and selection\<close>

text \<open>
  Claim C10. \<open>OpenRouterProvider\<close> and the manager's inner \<open>MockProvider\<close> leave the
  abstract method \<open>is_available\<close> without an override, so calling either class raises
  \<open>TypeError\<close>. Constructing the manager raises whenever \<open>OPENROUTER_API_KEY\<close> is set,
  and \<open>get_provider\<close> raises exactly when it reaches the mock branch, that is when no
  registered adapter is available.
\<close>

theorem C10_abstract_classes_raise:
  "abstractmethods OpenRouterProvider = [Is_available] \<and>
   abstractmethods MockProvider = [Is_available] \<and>
   OpenRouterProvider_new key = Inl TypeError \<and>
   MockProvider_new = Inl TypeError \<and>
   (truthy (OPENROUTER_API_KEY c) \<longrightarrow> AIManager_init l c = Inl TypeError) \<and>
   (get_provider m n = Inl TypeError \<longleftrightarrow>
      (\<forall>(k, p) \<in> set (providers m). \<not> is_available p))"
proof -
  have "truthy (OPENROUTER_API_KEY c) \<longrightarrow> AIManager_init l c = Inl TypeError"
    by (simp add: AIManager_init_def load_providers_openrouter)
  then show ?thesis
    using get_provider_raises_iff [of m n]
    by (simp add: abstractmethods_simps OpenRouterProvider_new_raises MockProvider_new_raises)
qed

theorem C10_abstract_classes_raise_witness:
  "truthy (OPENROUTER_API_KEY (openai_only\<lparr>OPENROUTER_API_KEY := Some ''sk-or-1''\<rparr>)) \<and>
   AIManager_init (libs_present True) (openai_only\<lparr>OPENROUTER_API_KEY := Some ''sk-or-1''\<rparr>) =
     Inl TypeError \<and>
   OpenRouterProvider_new (Some ''sk-or-1'') = Inl TypeError \<and>
   get_provider (openai_manager False) (Some ''openai'') = Inl TypeError"
  using C10_abstract_classes_raise
    [of "Some ''sk-or-1''" "openai_only\<lparr>OPENROUTER_API_KEY := Some ''sk-or-1''\<rparr>"
        "libs_present True" "openai_manager False" "Some ''openai''"]
  by (simp add: truthy_def is_available_def openai_manager_def openai_adapter_def
      openai_only_def)

text \<open>
  Claim C1 says that \<open>get_provider\<close> never raises and returns the Mock adapter when no
  adapter is available. On a manager built without any credential the code raises
  \<open>TypeError\<close> instead, with no name and with a name.
\<close>

theorem C1_get_provider_raises_without_providers:
  "AIManager_init l no_credentials = Inr \<lparr>mconfig = no_credentials, providers = []\<rparr> \<and>
   get_provider \<lparr>mconfig = no_credentials, providers = []\<rparr> None = Inl TypeError \<and>
   get_provider \<lparr>mconfig = no_credentials, providers = []\<rparr> (Some ''openai'') =
     Inl TypeError"
  by (simp add: AIManager_init_def load_providers_eq truthy_def get_provider_def
      create_mock_provider_def MockProvider_new_raises no_credentials_def)

lemma init_unavailable: "\<not> truthy key \<Longrightarrow> \<not> is_available (AIProvider_init cl nm key)"
  by (cases cl) (simp_all add: is_available_def AIProvider_init_def)

lemma AIManager_init_no_openrouter:
  "AIManager_init l c = Inr m \<Longrightarrow> \<not> truthy (OPENROUTER_API_KEY c)"
  by (auto simp: AIManager_init_def load_providers_openrouter)

lemma AIManager_init_providers:
  assumes "AIManager_init l c = Inr m"
  shows "providers m =
           (if truthy (OPENAI_API_KEY c)
            then [(''openai'',
                   \<lparr>cls = OpenAIProvider, p_name = ''OpenAI'', api_key = OPENAI_API_KEY c,
                    enabled = openai_importable l, client = openai_importable l\<rparr>)]
            else []) @
           (if truthy (GEMINI_API_KEY c)
            then [(''gemini'',
                   \<lparr>cls = GeminiProvider, p_name = ''Gemini'', api_key = GEMINI_API_KEY c,
                    enabled = genai_usable l (GEMINI_API_KEY c),
                    client = genai_usable l (GEMINI_API_KEY c)\<rparr>)]
            else [])"
  using assms load_providers_eq [OF AIManager_init_no_openrouter [OF assms], of l]
  by (auto simp: AIManager_init_def)

lemma registered_has_credential:
  assumes "AIManager_init l c = Inr m" and "(n, p) \<in> set (providers m)"
  shows "truthy (credential c (cls p)) \<and> api_key p = credential c (cls p)"
  using assms(2) unfolding AIManager_init_providers [OF assms(1)]
  by (auto split: if_splits)

lemma openai_manager_init:
  "AIManager_init (libs_present ok) openai_only = Inr (openai_manager ok)"
  by (simp add: AIManager_init_def load_providers_eq truthy_def openai_only_def
      openai_manager_def openai_adapter_def libs_present_def)

lemma openai_adapter_available: "is_available (openai_adapter ok) = ok"
  by (simp add: is_available_def openai_adapter_def)

text \<open>
  Claim C7. An adapter built from a missing or empty credential is not available, under
  the \<open>is_available\<close> of every class; and in a manager built from a configuration, every
  registered adapter, and so every adapter \<open>get_provider\<close> returns, belongs to a backend
  whose credential is set.
\<close>

theorem C7_no_credential_never_selected:
  "(\<not> truthy key \<longrightarrow>
      \<not> is_available (AIProvider_init cl nm key) \<and>
      (\<forall>p. OpenAIProvider_new l key = Inr p \<longrightarrow> \<not> is_available p) \<and>
      (\<forall>p. GeminiProvider_new l key = Inr p \<longrightarrow> \<not> is_available p) \<and>
      (\<forall>p. OpenRouterProvider_new key = Inr p \<longrightarrow> \<not> is_available p)) \<and>
   (AIManager_init l c = Inr m \<longrightarrow>
      (\<forall>n p. (n, p) \<in> set (providers m) \<longrightarrow> truthy (credential c (cls p))) \<and>
      (\<forall>n p. get_provider m n = Inr p \<longrightarrow> truthy (credential c (cls p))))"
proof -
  have a: "\<not> truthy key \<longrightarrow>
      \<not> is_available (AIProvider_init cl nm key) \<and>
      (\<forall>p. OpenAIProvider_new l key = Inr p \<longrightarrow> \<not> is_available p) \<and>
      (\<forall>p. GeminiProvider_new l key = Inr p \<longrightarrow> \<not> is_available p) \<and>
      (\<forall>p. OpenRouterProvider_new key = Inr p \<longrightarrow> \<not> is_available p)"
  proof (intro impI conjI)
    assume falsy: "\<not> truthy key"
    show "\<not> is_available (AIProvider_init cl nm key)"
      by (rule init_unavailable [OF falsy])
    show "\<forall>p. OpenAIProvider_new l key = Inr p \<longrightarrow> \<not> is_available p"
      using falsy by (auto simp: OpenAIProvider_new_eq is_available_def)
    show "\<forall>p. GeminiProvider_new l key = Inr p \<longrightarrow> \<not> is_available p"
      using falsy by (auto simp: GeminiProvider_new_eq is_available_def)
    show "\<forall>p. OpenRouterProvider_new key = Inr p \<longrightarrow> \<not> is_available p"
      by (simp add: OpenRouterProvider_new_raises)
  qed
  have b: "truthy (credential c (cls p))" if "AIManager_init l c = Inr m" "(n, p) \<in> set (providers m)" for n p
    using registered_has_credential [OF that] by simp
  have d: "truthy (credential c (cls p))" if "AIManager_init l c = Inr m" "get_provider m n = Inr p" for n p
    using get_provider_returns_registered [OF that(2)] b [OF that(1)] by blast
  show ?thesis using a b d by blast
qed

theorem C7_no_credential_never_selected_witness:
  "\<not> truthy None \<and>
   \<not> is_available (AIProvider_init OpenRouterProvider ''OpenRouter'' None) \<and>
   AIManager_init (libs_present True) openai_only = Inr (openai_manager True) \<and>
   get_provider (openai_manager True) (Some ''gemini'') = Inr (openai_adapter True) \<and>
   truthy (credential openai_only (cls (openai_adapter True)))"
proof -
  have built: "AIManager_init (libs_present True) openai_only = Inr (openai_manager True)"
    by (rule openai_manager_init)
  have got: "get_provider (openai_manager True) (Some ''gemini'') = Inr (openai_adapter True)"
    by (simp add: get_provider_def openai_manager_def truthy_def openai_adapter_available)
  show ?thesis
    using C7_no_credential_never_selected
      [of None OpenRouterProvider "''OpenRouter''" "libs_present True" openai_only
          "openai_manager True"] built got
    by (simp add: truthy_def)
qed

text \<open>
  Claim C8 is the scenario without credentials: \<open>get_provider_status\<close> is to report
  no enabled adapter, and \<open>generate_file_analysis\<close> on \<open>app.py\<close> is to return the mock
  result. The status is the empty dict, and the entry point raises \<open>TypeError\<close>; the
  result the claim describes is what \<open>MockProvider.generate_file_analysis\<close> computes,
  were the class instantiable.
\<close>

theorem C8_no_credentials_scenario_raises:
  "AIManager_init l no_credentials = Inr \<lparr>mconfig = no_credentials, providers = []\<rparr> \<and>
   get_provider_status \<lparr>mconfig = no_credentials, providers = []\<rparr> = [] \<and>
   AIManager_generate_file_analysis w \<lparr>mconfig = no_credentials, providers = []\<rparr> app_py None
     = Inl TypeError \<and>
   MockProvider_generate_file_analysis app_py =
     (JObject
        [(''file_name'', JString ''app.py''),
         (''description'', JString ''Mock analysis for python file''),
         (''key_components'',
            JArray [JObject [(''name'', JString ''main''), (''type'', JString ''function''),
                             (''description'', JString ''Main functionality'')]]),
         (''purpose'', JString ''Core functionality''),
         (''dependencies'', JArray [JString ''standard library'']),
         (''complexity'', JString ''medium'')], [])"
  by (simp add: AIManager_init_def load_providers_eq truthy_def no_credentials_def
      get_provider_status_def AIManager_generate_file_analysis_def get_provider_def
      create_mock_provider_def MockProvider_new_raises MockProvider_generate_file_analysis_def
      mock_file_analysis_def app_py_def)

text \<open>
  Claim C2 says that the three entry points never raise for provider-related reasons.
  With the OpenAI credential set and the \<open>openai\<close> library missing, the adapter is
  registered and unavailable, and each entry point raises \<open>TypeError\<close>, whatever the
  arguments.
\<close>

theorem C2_entry_points_raise_when_nothing_is_available:
  "AIManager_init (libs_present False) openai_only = Inr (openai_manager False) \<and>
   AIManager_generate_file_analysis w (openai_manager False) fi n = Inl TypeError \<and>
   AIManager_generate_repository_summary w f (openai_manager False) rd file_analyses n =
     Inl TypeError \<and>
   AIManager_generate_architecture_diagram w f (openai_manager False) rd n = Inl TypeError"
proof -
  have "get_provider (openai_manager False) n = Inl TypeError"
    by (simp add: get_provider_raises_iff openai_manager_def openai_adapter_available)
  then show ?thesis
    by (simp add: openai_manager_init AIManager_generate_file_analysis_def
        AIManager_generate_repository_summary_def AIManager_generate_architecture_diagram_def)
qed

section \<open>The search for a block\<close>

lemma re_search_braces_block:
  assumes "CHR ''{'' \<notin> set pre" and "CHR ''}'' \<notin> set post"
  shows "re_search_braces (pre @ CHR ''{'' # mid @ CHR ''}'' # post) =
           Some (CHR ''{'' # mid @ [CHR ''}''])"
proof -
  have head_part: "dropWhile (\<lambda>c. c \<noteq> CHR ''{'') (pre @ CHR ''{'' # mid @ CHR ''}'' # post) =
                 CHR ''{'' # mid @ CHR ''}'' # post"
    using assms(1) by (auto simp: dropWhile_append3)
  have tail_part: "dropWhile (\<lambda>c. c \<noteq> CHR ''}'') (rev (mid @ CHR ''}'' # post)) =
                CHR ''}'' # rev mid"
    using assms(2) by (auto simp: dropWhile_append3)
  show ?thesis
    using tail_part by (simp add: re_search_braces_def head_part)
qed

lemma re_search_braces_Some:
  assumes "re_search_braces s = Some m"
  shows "\<exists>pre mid post. s = pre @ m @ post \<and> m = CHR ''{'' # mid @ [CHR ''}''] \<and>
           CHR ''{'' \<notin> set pre \<and> CHR ''}'' \<notin> set post"
proof -
  define pre where "pre = takeWhile (\<lambda>c. c \<noteq> CHR ''{'') s"
  obtain b t where bt: "dropWhile (\<lambda>c. c \<noteq> CHR ''{'') s = b # t"
    using assms by (auto simp: re_search_braces_def split: list.splits)
  have b: "b = CHR ''{''"
    using hd_dropWhile [of "\<lambda>c. c \<noteq> CHR ''{''" s] bt by auto
  obtain e u where eu: "dropWhile (\<lambda>c. c \<noteq> CHR ''}'') (rev t) = e # u"
    using assms bt by (auto simp: re_search_braces_def split: list.splits)
  have e: "e = CHR ''}''"
    using hd_dropWhile [of "\<lambda>c. c \<noteq> CHR ''}''" "rev t"] eu by auto
  define post where "post = rev (takeWhile (\<lambda>c. c \<noteq> CHR ''}'') (rev t))"
  have m: "m = CHR ''{'' # rev u @ [CHR ''}'']"
    using assms bt eu b e by (simp add: re_search_braces_def)
  have "rev t = rev post @ e # u"
    using takeWhile_dropWhile_id [of "\<lambda>c. c \<noteq> CHR ''}''" "rev t"] eu
    by (simp add: post_def)
  then have t: "t = rev u @ CHR ''}'' # post"
    using e by (metis rev_append rev_rev_ident rev.simps(2) append.assoc append_Cons append_Nil)
  have s: "s = pre @ CHR ''{'' # t"
    using takeWhile_dropWhile_id [of "\<lambda>c. c \<noteq> CHR ''{''" s] bt b by (simp add: pre_def)
  have p1: "CHR ''{'' \<notin> set pre"
    unfolding pre_def by (auto dest: set_takeWhileD)
  have p2: "CHR ''}'' \<notin> set post"
    unfolding post_def by (auto dest: set_takeWhileD)
  show ?thesis
    using s t m p1 p2 by (intro exI [of _ pre] exI [of _ "rev u"] exI [of _ post]) simp
qed

lemma re_search_braces_None_iff:
  "re_search_braces s = None \<longleftrightarrow>
     \<not> (\<exists>a b c. s = a @ CHR ''{'' # b @ CHR ''}'' # c)"
proof
  assume none: "re_search_braces s = None"
  show "\<not> (\<exists>a b c. s = a @ CHR ''{'' # b @ CHR ''}'' # c)"
  proof
    assume "\<exists>a b c. s = a @ CHR ''{'' # b @ CHR ''}'' # c"
    then obtain a b c where s: "s = a @ CHR ''{'' # b @ CHR ''}'' # c" by blast
    have "CHR ''{'' \<in> set s" using s by simp
    then obtain a1 r where s1: "s = a1 @ CHR ''{'' # r" and a1: "CHR ''{'' \<notin> set a1"
      by (meson split_list_first)
    have "length a1 \<le> length a"
    proof (rule ccontr)
      assume "\<not> length a1 \<le> length a"
      then have "length a < length a1" by simp
      then have "a1 ! length a = s ! length a" using s1 by (simp add: nth_append)
      also have "\<dots> = CHR ''{''" using s by (simp add: nth_append)
      finally show False using a1 \<open>length a < length a1\<close> by (metis nth_mem)
    qed
    then have "CHR ''}'' \<in> set r"
    proof -
      have "drop (Suc (length a1)) s = r" using s1 by simp
      moreover have "drop (Suc (length a)) s = b @ CHR ''}'' # c" using s by simp
      moreover have "set (drop (Suc (length a)) s) \<subseteq> set (drop (Suc (length a1)) s)"
        using \<open>length a1 \<le> length a\<close> by (simp add: set_drop_subset_set_drop)
      ultimately show ?thesis by auto
    qed
    then obtain r1 r2 where r: "r = r1 @ CHR ''}'' # r2" and r2: "CHR ''}'' \<notin> set r2"
      by (meson split_list_last)
    have "re_search_braces s = Some (CHR ''{'' # r1 @ [CHR ''}''])"
      unfolding s1 r by (rule re_search_braces_block [OF a1 r2])
    with none show False by simp
  qed
next
  assume no: "\<not> (\<exists>a b c. s = a @ CHR ''{'' # b @ CHR ''}'' # c)"
  show "re_search_braces s = None"
  proof (cases "re_search_braces s")
    case None then show ?thesis .
  next
    case (Some m)
    from re_search_braces_Some [OF Some] obtain pre mid post where
      "s = pre @ m @ post" "m = CHR ''{'' # mid @ [CHR ''}'']" by blast
    then have "s = pre @ CHR ''{'' # mid @ CHR ''}'' # post" by simp
    with no show ?thesis by blast
  qed
qed

section \<open>Claims about requests and replies\<close>

lemmas file_analysis_defs =
  provider_generate_file_analysis_def OpenAIProvider_generate_file_analysis_def
  GeminiProvider_generate_file_analysis_def OpenRouterProvider_generate_file_analysis_def
  MockProvider_generate_file_analysis_def

lemmas repository_summary_defs =
  provider_generate_repository_summary_def OpenAIProvider_generate_repository_summary_def
  GeminiProvider_generate_repository_summary_def
  OpenRouterProvider_generate_repository_summary_def
  MockProvider_generate_repository_summary_def

lemmas architecture_diagram_defs =
  provider_generate_architecture_diagram_def OpenAIProvider_generate_architecture_diagram_def
  GeminiProvider_generate_architecture_diagram_def
  OpenRouterProvider_generate_architecture_diagram_def
  MockProvider_generate_architecture_diagram_def

lemma transport_failure_gives_mock:
  assumes "\<forall>req. backend w req = None"
  shows "fst (provider_generate_file_analysis w p fi) = mock_file_analysis (cls p) fi"
    and "fst (provider_generate_repository_summary w f p rd file_analyses) =
           mock_repository_summary (cls p) rd"
    and "fst (provider_generate_architecture_diagram w f p rd) =
           Text (mock_architecture_diagram (cls p) rd)"
  using assms
  by (cases "cls p"; simp add: file_analysis_defs repository_summary_defs
      architecture_diagram_defs Let_def)+

lemma fully_populated_wrapped_text: "fully_populated (wrapped_text fi (Text text))"
  by (simp add: fully_populated_def analysis_fields_def field_def wrapped_text_def)

lemma fully_populated_mock: "fully_populated (mock_file_analysis c fi)"
  by (simp add: fully_populated_def analysis_fields_def field_def mock_file_analysis_def)

lemma wrapped_null_not_populated:
  "field ''description'' (wrapped_text fi Null) = Some JNull"
  "\<not> fully_populated (wrapped_text fi Null)"
  by (simp_all add: fully_populated_def analysis_fields_def field_def wrapped_text_def)

lemma normalize_file_analysis_cases:
  "normalize_file_analysis loads fi result = wrapped_text fi result \<or>
   (\<exists>s m. result = Text s \<and> re_search_braces s = Some m \<and>
        loads m = Some (normalize_file_analysis loads fi result))"
  by (auto simp: normalize_file_analysis_def split: option.splits reply.splits)

lemma file_analysis_sources:
  "fst (provider_generate_file_analysis w p fi) = mock_file_analysis (cls p) fi \<or>
   (\<exists>req result. snd (provider_generate_file_analysis w p fi) = [req] \<and>
      backend w req = Some result \<and>
      fst (provider_generate_file_analysis w p fi) =
        normalize_file_analysis (json_loads w) fi result)"
  by (cases "cls p") (auto simp: file_analysis_defs Let_def split: option.splits)

text \<open>
  Claim C3 says that every result of \<open>generate_file_analysis\<close> has the six fields of an
  AnalysisResult, none of them null, whatever its origin. That holds for the mock result
  and for the wrapped text of a text reply. A reply whose block parses is returned as
  \<open>json.loads\<close> gave it, with the keys the model chose; and when the content of the reply
  is \<open>None\<close>, the wrapped text carries it as its description. So: the result is fully
  populated, or the one request sent was answered with \<open>None\<close> and the result is the
  wrapped \<open>None\<close>, or the result is the parsed block of the text that answered it.
\<close>

theorem C3_populated_unless_parsed:
  "fully_populated (mock_file_analysis c fi) \<and>
   fully_populated (wrapped_text fi (Text text)) \<and>
   (fully_populated (fst (provider_generate_file_analysis w p fi)) \<or>
    (\<exists>req.
       snd (provider_generate_file_analysis w p fi) = [req] \<and>
       backend w req = Some Null \<and>
       fst (provider_generate_file_analysis w p fi) = wrapped_text fi Null) \<or>
    (\<exists>req result m.
       snd (provider_generate_file_analysis w p fi) = [req] \<and>
       backend w req = Some (Text result) \<and>
       re_search_braces result = Some m \<and>
       json_loads w m = Some (fst (provider_generate_file_analysis w p fi))))"
proof -
  let ?r = "fst (provider_generate_file_analysis w p fi)"
  let ?sent = "snd (provider_generate_file_analysis w p fi)"
  consider
    (mock) "?r = mock_file_analysis (cls p) fi"
  | (reply) req result where
      "?sent = [req]" "backend w req = Some result"
      "?r = normalize_file_analysis (json_loads w) fi result"
    using file_analysis_sources [of w p fi] by blast
  then have
    "fully_populated ?r \<or>
     (\<exists>req. ?sent = [req] \<and> backend w req = Some Null \<and> ?r = wrapped_text fi Null) \<or>
     (\<exists>req result m. ?sent = [req] \<and> backend w req = Some (Text result) \<and>
        re_search_braces result = Some m \<and> json_loads w m = Some ?r)"
  proof cases
    case mock
    then show ?thesis by (simp add: fully_populated_mock)
  next
    case reply
    from normalize_file_analysis_cases [of "json_loads w" fi result]
    show ?thesis
    proof
      assume wrapped: "normalize_file_analysis (json_loads w) fi result = wrapped_text fi result"
      show ?thesis
      proof (cases result)
        case Null
        then show ?thesis using reply wrapped by auto
      next
        case (Text s)
        then show ?thesis using reply(3) wrapped by (simp add: fully_populated_wrapped_text)
      qed
    next
      assume "\<exists>s m. result = Text s \<and> re_search_braces s = Some m \<and>
                json_loads w m = Some (normalize_file_analysis (json_loads w) fi result)"
      then show ?thesis using reply by auto
    qed
  qed
  then show ?thesis
    by (simp add: fully_populated_wrapped_text fully_populated_mock)
qed

theorem C3_populated_unless_parsed_witness:
  "fully_populated (fst (provider_generate_file_analysis (replying (Text ''It prints 1.''))
     (openai_adapter True) app_py))"
proof -
  let ?w = "replying (Text ''It prints 1.'')"
  have "re_search_braces ''It prints 1.'' = None"
    by (simp add: re_search_braces_def)
  then have no_block: "\<not> (\<exists>req result m.
       snd (provider_generate_file_analysis ?w (openai_adapter True) app_py) = [req] \<and>
       backend ?w req = Some (Text result) \<and>
       re_search_braces result = Some m \<and>
       json_loads ?w m =
         Some (fst (provider_generate_file_analysis ?w (openai_adapter True) app_py)))"
    by (auto simp: replying_def)
  have no_null: "\<not> (\<exists>req.
       snd (provider_generate_file_analysis ?w (openai_adapter True) app_py) = [req] \<and>
       backend ?w req = Some Null \<and>
       fst (provider_generate_file_analysis ?w (openai_adapter True) app_py) =
         wrapped_text app_py Null)"
    by (simp add: replying_def)
  show ?thesis
    using C3_populated_unless_parsed
      [of MockProvider app_py "''''" ?w "openai_adapter True"] no_block no_null
    by blast
qed

theorem C3_parsed_reply_counterexample:
  "fst (provider_generate_file_analysis
          (replying (Text ''Sure! {\"summary\": \"prints 1\"}''))
          (openai_adapter True) app_py) = JObject [(''summary'', JString ''prints 1'')] \<and>
   \<not> fully_populated
       (fst (provider_generate_file_analysis
          (replying (Text ''Sure! {\"summary\": \"prints 1\"}''))
          (openai_adapter True) app_py)) \<and>
   field ''description''
     (fst (provider_generate_file_analysis (replying Null) (openai_adapter True) app_py)) =
     Some JNull \<and>
   \<not> fully_populated
       (fst (provider_generate_file_analysis (replying Null) (openai_adapter True) app_py))"
  by code_simp

text \<open>
  Claim C4. For every file and each of the three real adapters, an available adapter
  sends one request, whose user text is the header \<open>Analyze this L file: N\<close>, two
  newlines and the excerpt: the content itself when it has at most 4000 characters,
  else its first 4000 characters followed by the marker \<open>... [truncated]\<close>. A missing
  content counts as the empty string.
\<close>

theorem C4_content_capping:
  assumes "is_available p"
    and "content = (case f_content fi of None \<Rightarrow> [] | Some s \<Rightarrow> s)"
    and "sent = (if length content > 4000 then take 4000 content @ ''... [truncated]''
                 else content)"
    and "user = ''Analyze this '' @ f_language fi @ '' file: '' @ f_name fi @
                ''\<newline>\<newline>'' @ sent"
  shows "(cls p = OpenAIProvider \<longrightarrow>
            snd (provider_generate_file_analysis w p fi) =
              [ChatCompletion_create
                 \<lparr>model = ''gpt-4o'',
                  messages = [(''system'', get_file_analysis_prompt), (''user'', user)],
                  temperature = 1 / 10, max_tokens = 1000\<rparr>]) \<and>
         (cls p = OpenRouterProvider \<longrightarrow>
            snd (provider_generate_file_analysis w p fi) =
              [Requests_post ''https://openrouter.ai/api/v1/chat/completions''
                 (openrouter_headers p)
                 \<lparr>model = ''openai/gpt-4o-mini'',
                  messages = [(''system'', get_file_analysis_prompt), (''user'', user)],
                  temperature = 1 / 10, max_tokens = 1000\<rparr>]) \<and>
         (cls p = GeminiProvider \<longrightarrow>
            snd (provider_generate_file_analysis w p fi) =
              [Generate_content (get_file_analysis_prompt @ ''\<newline>'' @ user)]) \<and>
         (length content \<le> 4000 \<longrightarrow> sent = content) \<and>
         (length content > 4000 \<longrightarrow>
            take 4000 sent = take 4000 content \<and> drop 4000 sent = ''... [truncated]'')"
proof -
  have sent: "sent = excerpt fi"
    using assms(2,3) by (simp add: excerpt_def Let_def)
  have user: "user = file_user_message fi"
    using assms(4) sent by (simp add: file_user_message_def)
  have a: "cls p = OpenAIProvider \<longrightarrow>
            snd (provider_generate_file_analysis w p fi) =
              [ChatCompletion_create
                 \<lparr>model = ''gpt-4o'',
                  messages = [(''system'', get_file_analysis_prompt), (''user'', user)],
                  temperature = 1 / 10, max_tokens = 1000\<rparr>]"
    using assms(1) unfolding user
    by (auto simp: file_analysis_defs Let_def openai_request_def split: option.splits)
  have b: "cls p = OpenRouterProvider \<longrightarrow>
            snd (provider_generate_file_analysis w p fi) =
              [Requests_post ''https://openrouter.ai/api/v1/chat/completions''
                 (openrouter_headers p)
                 \<lparr>model = ''openai/gpt-4o-mini'',
                  messages = [(''system'', get_file_analysis_prompt), (''user'', user)],
                  temperature = 1 / 10, max_tokens = 1000\<rparr>]"
    using assms(1) unfolding user
    by (auto simp: file_analysis_defs Let_def openrouter_request_def split: option.splits)
  have c: "cls p = GeminiProvider \<longrightarrow>
            snd (provider_generate_file_analysis w p fi) =
              [Generate_content (get_file_analysis_prompt @ ''\<newline>'' @ user)]"
    using assms(1) unfolding user
    by (auto simp: file_analysis_defs Let_def gemini_request_def split: option.splits)
  have d: "length content \<le> 4000 \<longrightarrow> sent = content"
    using assms(3) by simp
  have e: "length content > 4000 \<longrightarrow>
            take 4000 sent = take 4000 content \<and> drop 4000 sent = ''... [truncated]''"
    using assms(3) by simp
  show ?thesis using a b c d e by blast
qed

theorem C4_content_capping_witness:
  "is_available (openai_adapter True) \<and>
   length (replicate 4001 (CHR ''x'')) > 4000 \<and>
   snd (provider_generate_file_analysis failing (openai_adapter True) big_py) =
     [ChatCompletion_create
        \<lparr>model = ''gpt-4o'',
         messages =
           [(''system'', get_file_analysis_prompt),
            (''user'',
               ''Analyze this python file: big.py\<newline>\<newline>'' @
               replicate 4000 (CHR ''x'') @ ''... [truncated]'')],
         temperature = 1 / 10, max_tokens = 1000\<rparr>] \<and>
   snd (provider_generate_file_analysis failing (openai_adapter True) app_py) =
     [ChatCompletion_create
        \<lparr>model = ''gpt-4o'',
         messages =
           [(''system'', get_file_analysis_prompt),
            (''user'', ''Analyze this python file: app.py\<newline>\<newline>print(1)'')],
         temperature = 1 / 10, max_tokens = 1000\<rparr>]"
proof -
  have av: "is_available (openai_adapter True)"
    by (simp add: openai_adapter_available)
  have big: "snd (provider_generate_file_analysis failing (openai_adapter True) big_py) =
     [ChatCompletion_create
        \<lparr>model = ''gpt-4o'',
         messages =
           [(''system'', get_file_analysis_prompt),
            (''user'',
               ''Analyze this python file: big.py\<newline>\<newline>'' @
               replicate 4000 (CHR ''x'') @ ''... [truncated]'')],
         temperature = 1 / 10, max_tokens = 1000\<rparr>]"
    using C4_content_capping
        [where p = "openai_adapter True" and fi = big_py and w = failing, OF av refl refl refl]
    by (simp add: big_py_def openai_adapter_def)
  have small: "snd (provider_generate_file_analysis failing (openai_adapter True) app_py) =
     [ChatCompletion_create
        \<lparr>model = ''gpt-4o'',
         messages =
           [(''system'', get_file_analysis_prompt),
            (''user'', ''Analyze this python file: app.py\<newline>\<newline>print(1)'')],
         temperature = 1 / 10, max_tokens = 1000\<rparr>]"
    using C4_content_capping
        [where p = "openai_adapter True" and fi = app_py and w = failing, OF av refl refl refl]
    by (simp add: app_py_def openai_adapter_def)
  show ?thesis using av big small by simp
qed

lemma provider_summary_ignores_analyses:
  "provider_generate_repository_summary w f p rd analyses1 =
     provider_generate_repository_summary w f p rd analyses2"
  by (cases "cls p") (simp_all add: repository_summary_defs)

text \<open>
  Claim C9. The list of per-file analyses passed to \<open>generate_repository_summary\<close> has
  no influence: for every class, and through the manager, two calls that differ in that
  list only send the same requests and return the same result.
\<close>

theorem C9_summary_ignores_analyses:
  "provider_generate_repository_summary w f p rd analyses1 =
     provider_generate_repository_summary w f p rd analyses2 \<and>
   OpenAIProvider_generate_repository_summary w f p rd analyses1 =
     OpenAIProvider_generate_repository_summary w f p rd analyses2 \<and>
   GeminiProvider_generate_repository_summary w f p rd analyses1 =
     GeminiProvider_generate_repository_summary w f p rd analyses2 \<and>
   OpenRouterProvider_generate_repository_summary w f p rd analyses1 =
     OpenRouterProvider_generate_repository_summary w f p rd analyses2 \<and>
   MockProvider_generate_repository_summary rd analyses1 =
     MockProvider_generate_repository_summary rd analyses2 \<and>
   AIManager_generate_repository_summary w f m rd analyses1 n =
     AIManager_generate_repository_summary w f m rd analyses2 n"
proof -
  have "AIManager_generate_repository_summary w f m rd analyses1 n =
          AIManager_generate_repository_summary w f m rd analyses2 n"
    unfolding AIManager_generate_repository_summary_def
    by (cases "get_provider m n")
      (simp_all add: provider_summary_ignores_analyses [of w f _ rd analyses1 analyses2])
  then show ?thesis
    using provider_summary_ignores_analyses [of w f p rd analyses1 analyses2]
    by (simp add: OpenAIProvider_generate_repository_summary_def
        GeminiProvider_generate_repository_summary_def
        OpenRouterProvider_generate_repository_summary_def
        MockProvider_generate_repository_summary_def)
qed

lemma file_analysis_of_reply:
  assumes "snd (provider_generate_file_analysis w p fi) = [req]"
    and "backend w req = Some result"
  shows "fst (provider_generate_file_analysis w p fi) =
           normalize_file_analysis (json_loads w) fi result"
  using assms
  by (cases "cls p") (auto simp: file_analysis_defs Let_def split: option.splits if_splits)

lemma repository_summary_of_reply:
  assumes "snd (provider_generate_repository_summary w f p rd file_analyses) = [req]"
    and "backend w req = Some result"
  shows "fst (provider_generate_repository_summary w f p rd file_analyses) =
           normalize_repository_summary (json_loads w) (cls p) rd result"
  using assms
  by (cases "cls p")
    (auto simp: repository_summary_defs Let_def split: option.splits if_splits)

lemma available_adapter_sends_one_request:
  assumes "is_available p" and "cls p \<noteq> MockProvider"
  shows "\<exists>req. snd (provider_generate_file_analysis w p fi) = [req]"
  using assms
  by (cases "cls p") (auto simp: file_analysis_defs Let_def split: option.splits)

text \<open>
  Claim C5 says that a reply with no brace-delimited block gives, for file analyses and
  repository summaries alike, a stub with a non-empty description or overview and empty
  list fields. For a file analysis the stub is the wrapped text: its description is the
  reply itself (empty when the reply is empty) and its two list fields are empty. For a
  repository summary the code returns the class's mock summary instead. Neither raises.
\<close>

theorem C5_reply_without_block:
  assumes "\<not> (\<exists>a b c. result = a @ CHR ''{'' # b @ CHR ''}'' # c)"
  shows "normalize_file_analysis loads fi (Text result) = wrapped_text fi (Text result) \<and>
         field ''description'' (normalize_file_analysis loads fi (Text result)) =
           Some (JString result) \<and>
         field ''key_components'' (normalize_file_analysis loads fi (Text result)) =
           Some (JArray []) \<and>
         field ''dependencies'' (normalize_file_analysis loads fi (Text result)) =
           Some (JArray []) \<and>
         normalize_repository_summary loads c rd (Text result) =
           mock_repository_summary c rd \<and>
         (\<forall>req. snd (provider_generate_file_analysis w p fi) = [req] \<and>
                backend w req = Some (Text result) \<longrightarrow>
                fst (provider_generate_file_analysis w p fi) =
                  wrapped_text fi (Text result)) \<and>
         (\<forall>req. snd (provider_generate_repository_summary w f p rd file_analyses) = [req] \<and>
                backend w req = Some (Text result) \<longrightarrow>
                fst (provider_generate_repository_summary w f p rd file_analyses) =
                  mock_repository_summary (cls p) rd)"
proof -
  have none: "re_search_braces result = None"
    using assms by (simp add: re_search_braces_None_iff)
  have nf: "normalize_file_analysis l fi (Text result) = wrapped_text fi (Text result)" for l
    using none by (simp add: normalize_file_analysis_def)
  have ns: "normalize_repository_summary l k rd (Text result) = mock_repository_summary k rd"
    for l k
    using none by (simp add: normalize_repository_summary_def)
  have fields:
    "field ''description'' (wrapped_text fi (Text result)) = Some (JString result)"
    "field ''key_components'' (wrapped_text fi (Text result)) = Some (JArray [])"
    "field ''dependencies'' (wrapped_text fi (Text result)) = Some (JArray [])"
    by (simp_all add: field_def wrapped_text_def)
  show ?thesis
    using nf ns fields
    by (auto dest!: file_analysis_of_reply repository_summary_of_reply)
qed

theorem C5_reply_without_block_witness:
  "field ''description''
     (fst (provider_generate_file_analysis (replying (Text ''It prints 1.''))
             (openai_adapter True) app_py)) = Some (JString ''It prints 1.'') \<and>
   field ''dependencies''
     (normalize_file_analysis json_loads_fragment app_py (Text ''It prints 1.'')) =
     Some (JArray []) \<and>
   normalize_repository_summary json_loads_fragment GeminiProvider demo_repo
     (Text ''It prints 1.'') = mock_repository_summary GeminiProvider demo_repo"
proof -
  let ?w = "replying (Text ''It prints 1.'')"
  have no_block: "\<not> (\<exists>a b c. ''It prints 1.'' = a @ CHR ''{'' # b @ CHR ''}'' # c)"
  proof -
    have "re_search_braces ''It prints 1.'' = None"
      by (simp add: re_search_braces_def)
    then show ?thesis
      using re_search_braces_None_iff [of "''It prints 1.''"] by blast
  qed
  have sent: "snd (provider_generate_file_analysis ?w (openai_adapter True) app_py) =
                [openai_request get_file_analysis_prompt (file_user_message app_py) 1000]"
    by (simp add: file_analysis_defs openai_adapter_def is_available_def replying_def)
  have reply: "backend ?w
                 (openai_request get_file_analysis_prompt (file_user_message app_py) 1000) =
               Some (Text ''It prints 1.'')"
    by (simp add: replying_def)
  show ?thesis
    using C5_reply_without_block
      [OF no_block, of json_loads_fragment app_py GeminiProvider demo_repo ?w
         "openai_adapter True"] sent reply
    by (simp add: field_def wrapped_text_def)
qed

theorem C5_reply_without_block_counterexample:
  "re_search_braces ''No JSON today.'' = None \<and>
   field ''overview''
     (normalize_repository_summary json_loads_fragment OpenAIProvider demo_repo
        (Text ''No JSON today.'')) = Some (JString ''OpenAI-powered repository analysis'') \<and>
   field ''key_features''
     (normalize_repository_summary json_loads_fragment OpenAIProvider demo_repo
        (Text ''No JSON today.'')) =
     Some (JArray [JObject [(''name'', JString ''Core''),
                            (''description'', JString ''Main features'')]]) \<and>
   field ''technical_stack''
     (normalize_repository_summary json_loads_fragment OpenAIProvider demo_repo
        (Text ''No JSON today.'')) = Some (JArray [JString ''python'']) \<and>
   re_search_braces [] = None \<and>
   field ''description'' (normalize_file_analysis json_loads_fragment app_py (Text [])) =
     Some (JString [])"
  by (simp add: re_search_braces_def normalize_repository_summary_def
      normalize_file_analysis_def mock_repository_summary_def wrapped_text_def field_def
      demo_repo_def)

text \<open>
  Claim C6 says that a reply holding a single valid block surrounded by prose is
  normalised to the parsed block. The search runs from the first \<open>{\<close> of the reply to its
  last \<open>}\<close>, so that holds when the prose before the block has no \<open>{\<close> and the prose after
  it has no \<open>}\<close>: then the search finds exactly the block, and the normaliser and
  \<open>generate_file_analysis\<close> of an available adapter, which sends one request, return the
  parsed block whenever \<open>json.loads\<close> accepts it. A brace in the prose on the wrong side
  is taken into the match.
\<close>

theorem C6_block_between_prose:
  assumes "CHR ''{'' \<notin> set pre" and "CHR ''}'' \<notin> set post"
    and "block = CHR ''{'' # mid @ [CHR ''}'']"
    and "json_loads w block = Some v"
  shows "re_search_braces (pre @ block @ post) = Some block \<and>
         normalize_file_analysis (json_loads w) fi (Text (pre @ block @ post)) = v \<and>
         (is_available p \<and> cls p \<noteq> MockProvider \<longrightarrow>
            (\<exists>req. snd (provider_generate_file_analysis w p fi) = [req])) \<and>
         (\<forall>req. snd (provider_generate_file_analysis w p fi) = [req] \<and>
                backend w req = Some (Text (pre @ block @ post)) \<longrightarrow>
                fst (provider_generate_file_analysis w p fi) = v)"
proof -
  have found: "re_search_braces (pre @ block @ post) = Some block"
    using re_search_braces_block [OF assms(1,2), of mid] assms(3) by simp
  then have norm: "normalize_file_analysis (json_loads w) fi (Text (pre @ block @ post)) = v"
    using assms(4) by (simp add: normalize_file_analysis_def)
  have sends: "is_available p \<and> cls p \<noteq> MockProvider \<longrightarrow>
            (\<exists>req. snd (provider_generate_file_analysis w p fi) = [req])"
    using available_adapter_sends_one_request [of p w fi] by blast
  show ?thesis
    using found norm sends by (auto dest!: file_analysis_of_reply)
qed

theorem C6_block_between_prose_witness:
  "fst (provider_generate_file_analysis
          (replying
             (Text ''Here is the analysis: {\"file_name\": \"app.py\", \"complexity\": \"low\"} Hope it helps.''))
          (openai_adapter True) app_py) =
     JObject [(''file_name'', JString ''app.py''), (''complexity'', JString ''low'')]"
proof -
  let ?pre = "''Here is the analysis: ''"
  let ?mid = "''\"file_name\": \"app.py\", \"complexity\": \"low\"''"
  let ?post = "'' Hope it helps.''"
  let ?w = "replying (Text (?pre @ (CHR ''{'' # ?mid @ [CHR ''}'']) @ ?post))"
  have p1: "CHR ''{'' \<notin> set ?pre" by simp
  have p2: "CHR ''}'' \<notin> set ?post" by simp
  have parsed: "json_loads ?w (CHR ''{'' # ?mid @ [CHR ''}'']) =
      Some (JObject [(''file_name'', JString ''app.py''), (''complexity'', JString ''low'')])"
    unfolding replying_def by code_simp
  have av: "is_available (openai_adapter True) \<and> cls (openai_adapter True) \<noteq> MockProvider"
    by (simp add: openai_adapter_available) (simp add: openai_adapter_def)
  have reply: "backend ?w req = Some (Text (?pre @ (CHR ''{'' # ?mid @ [CHR ''}'']) @ ?post))"
    for req
    by (simp add: replying_def)
  have "fst (provider_generate_file_analysis ?w (openai_adapter True) app_py) =
     JObject [(''file_name'', JString ''app.py''), (''complexity'', JString ''low'')]"
    using C6_block_between_prose
        [OF p1 p2 refl parsed, where p = "openai_adapter True" and fi = app_py]
      av reply
    by blast
  then show ?thesis by simp
qed

theorem C6_stray_brace_counterexample:
  "json_loads_fragment ''{\"a\": 1}'' = Some (JObject [(''a'', JInt 1)]) \<and>
   re_search_braces ''{\"a\": 1} thanks :-}'' = Some ''{\"a\": 1} thanks :-}'' \<and>
   fst (provider_generate_file_analysis (replying (Text ''{\"a\": 1} thanks :-}''))
          (openai_adapter True) app_py) =
     wrapped_text app_py (Text ''{\"a\": 1} thanks :-}'') \<and>
   fst (provider_generate_file_analysis (replying (Text ''{\"a\": 1} thanks :-}''))
          (openai_adapter True) app_py) \<noteq> JObject [(''a'', JInt 1)] \<and>
   re_search_braces ''Use {x} here: {\"a\": 1}'' = Some ''{x} here: {\"a\": 1}'' \<and>
   fst (provider_generate_file_analysis (replying (Text ''Use {x} here: {\"a\": 1}''))
          (openai_adapter True) app_py) =
     wrapped_text app_py (Text ''Use {x} here: {\"a\": 1}'')"
  by code_simp

end
